theory Spec2Isabelle
  imports Complex_Main
begin

section \<open>Python values\<close>

text \<open>
  The server of \<^verbatim>\<open>mcp_server.py\<close> computes on what \<^verbatim>\<open>json.load\<close> returns and on
  dictionaries it builds from that. A Python \<^verbatim>\<open>str\<close> is a sequence of code points, so a
  string is a list of natural numbers; \<open>cp\<close> embeds an ASCII literal. A \<^verbatim>\<open>dict\<close> is
  an association list in insertion order. A \<^verbatim>\<open>float\<close> is modelled by the rational
  number it stands for: rounding to binary64, infinities and NaN are not modelled.
\<close>

datatype pyval =
    PNone
  | PBool bool
  | PInt int
  | PFloat rat
  | PStr "nat list"
  | PList "pyval list"
  | PDict "(pyval \<times> pyval) list"

definition cp :: "string \<Rightarrow> nat list" where
  "cp s = map of_char s"

abbreviation Str :: "string \<Rightarrow> pyval" where
  "Str s \<equiv> PStr (cp s)"

text \<open>Exceptions (all of them subclasses of \<^verbatim>\<open>Exception\<close>) are values.\<close>

datatype pyerr =
    KeyError pyval
  | TypeError
  | ValueError
  | AttributeError
  | ZeroDivisionError
  | SendFailed

definition bindE :: "pyerr + 'a \<Rightarrow> ('a \<Rightarrow> pyerr + 'b) \<Rightarrow> pyerr + 'b" where
  "bindE m f = (case m of Inl e \<Rightarrow> Inl e | Inr v \<Rightarrow> f v)"

text \<open>
  What the interpreter prints for a float, for a container and for an exception is fixed
  by CPython, not by this program: these conversions are parameters of the model.
\<close>

record pyrt =
  str_float :: "rat \<Rightarrow> nat list"
  str_container :: "pyval \<Rightarrow> nat list"
  format_comma_float :: "rat \<Rightarrow> nat list"
  format_percent1 :: "rat \<Rightarrow> nat list"
  str_exception :: "pyerr \<Rightarrow> nat list"
  json_dumps_indent2 :: "pyval \<Rightarrow> nat list"

subsection \<open>Truth value, equality, numbers\<close>

fun py_truthy :: "pyval \<Rightarrow> bool" where
  "py_truthy PNone = False"
| "py_truthy (PBool b) = b"
| "py_truthy (PInt i) = (i \<noteq> 0)"
| "py_truthy (PFloat q) = (q \<noteq> 0)"
| "py_truthy (PStr s) = (s \<noteq> [])"
| "py_truthy (PList xs) = (xs \<noteq> [])"
| "py_truthy (PDict kvs) = (kvs \<noteq> [])"

text \<open>\<^verbatim>\<open>bool\<close> is a subclass of \<^verbatim>\<open>int\<close>: \<^verbatim>\<open>True\<close> counts as 1 in arithmetic and in comparisons.\<close>

fun int_of :: "pyval \<Rightarrow> int option" where
  "int_of (PBool b) = Some (if b then 1 else 0)"
| "int_of (PInt i) = Some i"
| "int_of _ = None"

fun num_of :: "pyval \<Rightarrow> rat option" where
  "num_of (PBool b) = Some (if b then 1 else 0)"
| "num_of (PInt i) = Some (of_int i)"
| "num_of (PFloat q) = Some q"
| "num_of _ = None"

text \<open>
  Python's \<^verbatim>\<open>==\<close> on such values: numbers compare by value across \<^verbatim>\<open>bool\<close>, \<^verbatim>\<open>int\<close>
  and \<^verbatim>\<open>float\<close>, lists elementwise, dictionaries as sets of items, and values of
  different kinds are unequal.
\<close>

function (sequential) py_eq :: "pyval \<Rightarrow> pyval \<Rightarrow> bool"
  and py_eq_list :: "pyval list \<Rightarrow> pyval list \<Rightarrow> bool"
  and py_items_in :: "(pyval \<times> pyval) list \<Rightarrow> (pyval \<times> pyval) list \<Rightarrow> bool"
  and py_item_in :: "pyval \<Rightarrow> pyval \<Rightarrow> (pyval \<times> pyval) list \<Rightarrow> bool"
where
  "py_eq PNone PNone = True"
| "py_eq (PStr s) (PStr t) = (s = t)"
| "py_eq (PList xs) (PList ys) = py_eq_list xs ys"
| "py_eq (PDict a) (PDict b) = (length a = length b \<and> py_items_in a b)"
| "py_eq x y = (num_of x \<noteq> None \<and> num_of x = num_of y)"
| "py_eq_list [] [] = True"
| "py_eq_list (x # xs) (y # ys) = (py_eq x y \<and> py_eq_list xs ys)"
| "py_eq_list _ _ = False"
| "py_items_in [] b = True"
| "py_items_in ((k, v) # a) b = (py_item_in k v b \<and> py_items_in a b)"
| "py_item_in k v [] = False"
| "py_item_in k v ((k', v') # b) = (if py_eq k k' then py_eq v v' else py_item_in k v b)"
  by pat_completeness auto
termination
  by (relation "inv_image (less_than <*lex*> less_than)
        (\<lambda>s. case s of
            Inl (Inl (x, y)) \<Rightarrow> (size x, 0)
          | Inl (Inr (xs, ys)) \<Rightarrow> (size_list size xs, 0)
          | Inr (Inl (a, b)) \<Rightarrow> (size_list (size_prod size size) a, 0)
          | Inr (Inr (k, v, b)) \<Rightarrow> (size k + size v + 1, length b))") auto

fun py_hashable :: "pyval \<Rightarrow> bool" where
  "py_hashable (PList xs) = False"
| "py_hashable (PDict kvs) = False"
| "py_hashable _ = True"

subsection \<open>Containers\<close>

fun dict_find :: "(pyval \<times> pyval) list \<Rightarrow> pyval \<Rightarrow> pyval option" where
  "dict_find [] k = None"
| "dict_find ((k', v) # kvs) k = (if py_eq k' k then Some v else dict_find kvs k)"

text \<open>\<^verbatim>\<open>x["key"]\<close> with a string literal, the only subscript the server writes.\<close>

fun getitem :: "pyval \<Rightarrow> string \<Rightarrow> pyerr + pyval" where
  "getitem (PDict kvs) k =
     (case dict_find kvs (Str k) of Some v \<Rightarrow> Inr v | None \<Rightarrow> Inl (KeyError (Str k)))"
| "getitem _ k = Inl TypeError"

text \<open>\<^verbatim>\<open>x.get("key", default)\<close>: only a \<^verbatim>\<open>dict\<close> has the method.\<close>

fun py_get :: "pyval \<Rightarrow> string \<Rightarrow> pyval \<Rightarrow> pyerr + pyval" where
  "py_get (PDict kvs) k d = Inr (case dict_find kvs (Str k) of Some v \<Rightarrow> v | None \<Rightarrow> d)"
| "py_get _ k d = Inl AttributeError"

text \<open>\<^verbatim>\<open>for x in v\<close>: a list gives its elements, a dictionary its keys, a string its characters.\<close>

fun py_iter :: "pyval \<Rightarrow> pyerr + pyval list" where
  "py_iter (PList xs) = Inr xs"
| "py_iter (PDict kvs) = Inr (map fst kvs)"
| "py_iter (PStr s) = Inr (map (\<lambda>c. PStr [c]) s)"
| "py_iter _ = Inl TypeError"

fun py_len :: "pyval \<Rightarrow> pyerr + nat" where
  "py_len (PList xs) = Inr (length xs)"
| "py_len (PDict kvs) = Inr (length kvs)"
| "py_len (PStr s) = Inr (length s)"
| "py_len _ = Inl TypeError"

text \<open>A list comprehension with a condition that may raise; the first exception ends it.\<close>

fun filterE :: "('a \<Rightarrow> pyerr + bool) \<Rightarrow> 'a list \<Rightarrow> pyerr + 'a list" where
  "filterE p [] = Inr []"
| "filterE p (x # xs) =
     (case p x of
        Inl e \<Rightarrow> Inl e
      | Inr b \<Rightarrow> (case filterE p xs of
                    Inl e \<Rightarrow> Inl e
                  | Inr ys \<Rightarrow> Inr (if b then x # ys else ys)))"

fun mapE :: "('a \<Rightarrow> pyerr + 'b) \<Rightarrow> 'a list \<Rightarrow> pyerr + 'b list" where
  "mapE f [] = Inr []"
| "mapE f (x # xs) =
     (case f x of
        Inl e \<Rightarrow> Inl e
      | Inr y \<Rightarrow> (case mapE f xs of Inl e \<Rightarrow> Inl e | Inr ys \<Rightarrow> Inr (y # ys)))"

text \<open>\<^verbatim>\<open>x["key"] == lit\<close> and \<^verbatim>\<open>x["key"] != lit\<close>.\<close>

definition field_eq :: "string \<Rightarrow> pyval \<Rightarrow> pyval \<Rightarrow> pyerr + bool" where
  "field_eq k lit x = bindE (getitem x k) (\<lambda>v. Inr (py_eq v lit))"

definition field_ne :: "string \<Rightarrow> pyval \<Rightarrow> pyval \<Rightarrow> pyerr + bool" where
  "field_ne k lit x = bindE (getitem x k) (\<lambda>v. Inr (\<not> py_eq v lit))"

subsection \<open>Arithmetic\<close>

text \<open>\<^verbatim>\<open>a + b\<close> for a number \<open>a\<close>, as \<^verbatim>\<open>sum\<close> computes it from the start value 0.\<close>

definition py_add :: "pyval \<Rightarrow> pyval \<Rightarrow> pyerr + pyval" where
  "py_add a b =
     (case (int_of a, int_of b) of
        (Some i, Some j) \<Rightarrow> Inr (PInt (i + j))
      | _ \<Rightarrow> (case (num_of a, num_of b) of
                (Some x, Some y) \<Rightarrow> Inr (PFloat (x + y))
              | _ \<Rightarrow> Inl TypeError))"

text \<open>
  \<^verbatim>\<open>sum(g(x) for x in xs if c(x))\<close>: the generator \<open>g\<close> yields \<open>None\<close> for an element the
  condition drops; each value is added before the next element is looked at.
\<close>

fun py_sum :: "('a \<Rightarrow> pyerr + pyval option) \<Rightarrow> 'a list \<Rightarrow> pyval \<Rightarrow> pyerr + pyval" where
  "py_sum g [] acc = Inr acc"
| "py_sum g (x # xs) acc =
     (case g x of
        Inl e \<Rightarrow> Inl e
      | Inr None \<Rightarrow> py_sum g xs acc
      | Inr (Some v) \<Rightarrow> (case py_add acc v of
                           Inl e \<Rightarrow> Inl e
                         | Inr acc' \<Rightarrow> py_sum g xs acc'))"

definition amount_of :: "pyval \<Rightarrow> pyerr + pyval option" where
  "amount_of s = bindE (getitem s ''amount'') (\<lambda>v. Inr (Some v))"

definition amount_if_closed :: "pyval \<Rightarrow> pyerr + pyval option" where
  "amount_if_closed s =
     bindE (field_eq ''status'' (Str ''Closed Won'') s)
       (\<lambda>b. if b then amount_of s else Inr None)"

text \<open>\<^verbatim>\<open>a / n\<close> for a number \<open>a\<close> and a length \<open>n\<close>.\<close>

definition py_truediv :: "pyval \<Rightarrow> nat \<Rightarrow> pyerr + pyval" where
  "py_truediv a n =
     (case num_of a of
        None \<Rightarrow> Inl TypeError
      | Some x \<Rightarrow> if n = 0 then Inl ZeroDivisionError else Inr (PFloat (x / of_nat n)))"

subsection \<open>Formatting\<close>

fun str_nat :: "nat \<Rightarrow> string" where
  "str_nat n =
     (if n < 10 then [''0123456789'' ! n]
      else str_nat (n div 10) @ [''0123456789'' ! (n mod 10)])"

declare str_nat.simps [simp del]

definition str_int :: "int \<Rightarrow> string" where
  "str_int i = (if i < 0 then ''-'' @ str_nat (nat (- i)) else str_nat (nat i))"

text \<open>The format specification \<^verbatim>\<open>,\<close>: groups of three digits from the right.\<close>

function group3 :: "string \<Rightarrow> string" where
  "group3 ds =
     (if length ds \<le> 3 then ds
      else group3 (take (length ds - 3) ds) @ '','' @ drop (length ds - 3) ds)"
  by pat_completeness auto
termination
  by (relation "measure length") auto

declare group3.simps [simp del]

definition comma_int :: "int \<Rightarrow> string" where
  "comma_int i =
     (if i < 0 then ''-'' @ group3 (str_nat (nat (- i))) else group3 (str_nat (nat i)))"

text \<open>\<^verbatim>\<open>f"{v}"\<close>, that is \<^verbatim>\<open>str(v)\<close>.\<close>

fun py_str :: "pyrt \<Rightarrow> pyval \<Rightarrow> nat list" where
  "py_str rt (PStr s) = s"
| "py_str rt PNone = cp ''None''"
| "py_str rt (PBool b) = cp (if b then ''True'' else ''False'')"
| "py_str rt (PInt i) = cp (str_int i)"
| "py_str rt (PFloat q) = str_float rt q"
| "py_str rt v = str_container rt v"

text \<open>\<^verbatim>\<open>f"{v:,}"\<close> and \<^verbatim>\<open>f"{v:.1%}"\<close>: numbers only.\<close>

fun fmt_comma :: "pyrt \<Rightarrow> pyval \<Rightarrow> pyerr + nat list" where
  "fmt_comma rt (PInt i) = Inr (cp (comma_int i))"
| "fmt_comma rt (PBool b) = Inr (cp (if b then ''1'' else ''0''))"
| "fmt_comma rt (PFloat q) = Inr (format_comma_float rt q)"
| "fmt_comma rt (PStr s) = Inl ValueError"
| "fmt_comma rt _ = Inl TypeError"

fun fmt_percent :: "pyrt \<Rightarrow> pyval \<Rightarrow> pyerr + nat list" where
  "fmt_percent rt (PStr s) = Inl ValueError"
| "fmt_percent rt v =
     (case num_of v of None \<Rightarrow> Inl TypeError | Some x \<Rightarrow> Inr (format_percent1 rt x))"

text \<open>\<^verbatim>\<open>", ".join(xs)\<close>: every item must be a \<^verbatim>\<open>str\<close>.\<close>

fun join_strs :: "nat list \<Rightarrow> nat list list \<Rightarrow> nat list" where
  "join_strs sep [] = []"
| "join_strs sep [s] = s"
| "join_strs sep (s # t # ss) = s @ sep @ join_strs sep (t # ss)"

definition str_item :: "pyval \<Rightarrow> pyerr + nat list" where
  "str_item v = (case v of PStr s \<Rightarrow> Inr s | _ \<Rightarrow> Inl TypeError)"

definition py_join :: "nat list \<Rightarrow> pyval list \<Rightarrow> pyerr + nat list" where
  "py_join sep vs = bindE (mapE str_item vs) (\<lambda>ss. Inr (join_strs sep ss))"

section \<open>The data files\<close>

text \<open>
  \<^verbatim>\<open>load_data\<close> opens \<^verbatim>\<open>data/<file_name>\<close> and returns what \<^verbatim>\<open>json.load\<close> gives; any
  exception (no such file, text that is not JSON) is logged and the result is the empty
  list. The files are the state the server reads: \<open>fs name\<close> is the parsed content,
  or \<open>None\<close> where opening or parsing raises.
\<close>

type_synonym datafiles = "string \<Rightarrow> pyval option"

definition load_data :: "datafiles \<Rightarrow> string \<Rightarrow> pyval" where
  "load_data fs file_name = (case fs file_name of Some v \<Rightarrow> v | None \<Rightarrow> PList [])"

section \<open>The tool registry\<close>

definition tool_descriptor :: "string \<Rightarrow> string \<Rightarrow> pyval \<Rightarrow> pyval" where
  "tool_descriptor name description properties =
     PDict [(Str ''name'', Str name),
            (Str ''description'', Str description),
            (Str ''inputSchema'',
               PDict [(Str ''type'', Str ''object''), (Str ''properties'', properties)])]"

definition string_parameter :: "string \<Rightarrow> string \<Rightarrow> string list \<Rightarrow> pyval" where
  "string_parameter name description allowed =
     PDict [(Str name,
               PDict [(Str ''type'', Str ''string''),
                      (Str ''description'', Str description),
                      (Str ''enum'', PList (map Str allowed))])]"

definition get_available_tools :: "pyval list" where
  "get_available_tools =
     [tool_descriptor ''get_revenue_summary''
        ''Get total revenue summary from closed sales'' (PDict []),
      tool_descriptor ''get_top_performers''
        ''Get top performing employees''
        (string_parameter ''department'' ''Filter by department (optional)''
           [''Engineering'', ''Sales'', ''Marketing'', ''Support'']),
      tool_descriptor ''get_open_tickets''
        ''Get count and details of open support tickets'' (PDict []),
      tool_descriptor ''analyze_sales_performance''
        ''Analyze sales performance by region and status''
        (string_parameter ''region'' ''Filter by region (optional)''
           [''North America'', ''Europe'', ''Asia'']),
      tool_descriptor ''get_business_overview''
        ''Get comprehensive business overview across all departments'' (PDict [])]"

definition tool_names :: "pyval list" where
  "tool_names = map (\<lambda>t. case getitem t ''name'' of Inr n \<Rightarrow> n | Inl e \<Rightarrow> PNone) get_available_tools"

section \<open>The tool executors\<close>

text \<open>The pictographs that open the summaries, as code points.\<close>

definition check_mark :: "nat list" where "check_mark = [0x2705]"
definition bar_chart :: "nat list" where "bar_chart = [0x1F4CA]"
definition trophy :: "nat list" where "trophy = [0x1F3C6]"
definition envelope_arrow :: "nat list" where "envelope_arrow = [0x1F4E9]"
definition chart_up :: "nat list" where "chart_up = [0x1F4C8]"
definition office :: "nat list" where "office = [0x1F3E2]"

definition get_revenue_summary :: "pyrt \<Rightarrow> datafiles \<Rightarrow> pyerr + pyval" where
  "get_revenue_summary rt fs =
     (let sales_data = load_data fs ''sales.json'' in
      bindE (py_iter sales_data) (\<lambda>sales.
      bindE (filterE (field_eq ''status'' (Str ''Closed Won'')) sales) (\<lambda>closed_won.
      bindE (filterE (field_eq ''status'' (Str ''In Progress'')) sales) (\<lambda>in_progress.
      bindE (filterE (field_eq ''status'' (Str ''Lost'')) sales) (\<lambda>lost.
      bindE (py_sum amount_of closed_won (PInt 0)) (\<lambda>total_revenue.
      bindE (py_sum amount_of in_progress (PInt 0)) (\<lambda>potential_revenue.
      bindE (if py_truthy sales_data
             then bindE (py_len sales_data) (py_truediv (PInt (int (length closed_won))))
             else Inr (PInt 0)) (\<lambda>win_rate.
      bindE (fmt_comma rt total_revenue) (\<lambda>revenue_text.
      bindE (fmt_percent rt win_rate) (\<lambda>rate_text.
      Inr (PDict
        [(Str ''total_closed_revenue'', total_revenue),
         (Str ''potential_revenue'', potential_revenue),
         (Str ''closed_deals'', PInt (int (length closed_won))),
         (Str ''deals_in_progress'', PInt (int (length in_progress))),
         (Str ''lost_deals'', PInt (int (length lost))),
         (Str ''win_rate'', win_rate),
         (Str ''summary'',
            PStr (check_mark @ cp '' Total Closed Revenue: $'' @ revenue_text @ cp '' | ''
                  @ bar_chart @ cp '' '' @ cp (str_nat (length closed_won))
                  @ cp '' closed deals ('' @ rate_text @ cp '' win rate)''))])))))))))))"

definition performer_entry :: "pyval \<Rightarrow> pyerr + pyval" where
  "performer_entry p =
     bindE (getitem p ''name'') (\<lambda>name.
     bindE (getitem p ''department'') (\<lambda>department.
     bindE (getitem p ''salary'') (\<lambda>salary.
     bindE (getitem p ''performance'') (\<lambda>performance.
     Inr (PDict [(Str ''name'', name), (Str ''department'', department),
                 (Str ''salary'', salary), (Str ''performance'', performance)])))))"

definition performer_label :: "pyrt \<Rightarrow> pyval \<Rightarrow> pyerr + pyval" where
  "performer_label rt p =
     bindE (getitem p ''name'') (\<lambda>name.
     bindE (getitem p ''department'') (\<lambda>department.
     Inr (PStr (py_str rt name @ cp '' ('' @ py_str rt department @ cp '')''))))"

definition get_top_performers :: "pyrt \<Rightarrow> datafiles \<Rightarrow> pyval \<Rightarrow> pyerr + pyval" where
  "get_top_performers rt fs department =
     (let hr_data = load_data fs ''hr.json'' in
      bindE (py_iter hr_data) (\<lambda>employees.
      bindE (filterE (field_eq ''performance'' (Str ''Excellent'')) employees) (\<lambda>excellent.
      bindE (if py_truthy department
             then filterE (field_eq ''department'' department) excellent
             else Inr excellent) (\<lambda>performers.
      bindE (mapE performer_entry performers) (\<lambda>performer_list.
      bindE (if py_truthy department
             then bindE (mapE (\<lambda>p. getitem p ''name'') performers) (\<lambda>names.
                  bindE (py_join (cp '', '') names) (\<lambda>joined.
                  Inr (trophy @ cp '' Top performers in '' @ py_str rt department
                       @ cp '': '' @ joined)))
             else bindE (mapE (performer_label rt) performers) (\<lambda>performer_names.
                  bindE (py_join (cp '', '') performer_names) (\<lambda>joined.
                  Inr (trophy @ cp '' Top performers across company: '' @ joined)))) (\<lambda>summary.
      Inr (PDict
        [(Str ''top_performers'', PList performer_list),
         (Str ''count'', PInt (int (length performers))),
         (Str ''summary'', PStr summary)])))))))"

text \<open>
  \<^verbatim>\<open>d[k] = d.get(k, 0) + 1\<close>: the key must be hashable; a key equal to one already in
  the dictionary keeps that entry's place.
\<close>

fun dict_set :: "(pyval \<times> pyval) list \<Rightarrow> pyval \<Rightarrow> pyval \<Rightarrow> (pyval \<times> pyval) list" where
  "dict_set [] k v = [(k, v)]"
| "dict_set ((k', v') # kvs) k v =
     (if py_eq k' k then (k', v) # kvs else (k', v') # dict_set kvs k v)"

definition count_key :: "(pyval \<times> pyval) list \<Rightarrow> pyval \<Rightarrow> pyerr + (pyval \<times> pyval) list" where
  "count_key d k =
     (if py_hashable k
      then bindE (py_add (case dict_find d k of Some c \<Rightarrow> c | None \<Rightarrow> PInt 0) (PInt 1))
             (\<lambda>c. Inr (dict_set d k c))
      else Inl TypeError)"

fun count_tickets ::
  "pyval list \<Rightarrow> (pyval \<times> pyval) list \<times> (pyval \<times> pyval) list
     \<Rightarrow> pyerr + ((pyval \<times> pyval) list \<times> (pyval \<times> pyval) list)" where
  "count_tickets [] acc = Inr acc"
| "count_tickets (ticket # tickets) (by_status, by_priority) =
     (case bindE (getitem ticket ''status'') (count_key by_status) of
        Inl e \<Rightarrow> Inl e
      | Inr by_status' \<Rightarrow>
          (case bindE (getitem ticket ''priority'') (count_key by_priority) of
             Inl e \<Rightarrow> Inl e
           | Inr by_priority' \<Rightarrow> count_tickets tickets (by_status', by_priority')))"

definition status_count_text :: "pyrt \<Rightarrow> pyval \<times> pyval \<Rightarrow> pyval" where
  "status_count_text rt = (\<lambda>(status, count). PStr (py_str rt status @ cp '': '' @ py_str rt count))"

definition get_open_tickets :: "pyrt \<Rightarrow> datafiles \<Rightarrow> pyerr + pyval" where
  "get_open_tickets rt fs =
     (let tickets_data = load_data fs ''support.json'' in
      bindE (py_iter tickets_data) (\<lambda>tickets.
      bindE (filterE (field_ne ''status'' (Str ''Resolved'')) tickets) (\<lambda>open_tickets.
      bindE (count_tickets open_tickets ([], [])) (\<lambda>(by_status, by_priority).
      bindE (py_join (cp '', '') (map (status_count_text rt) by_status)) (\<lambda>status_summary.
      Inr (PDict
        [(Str ''open_tickets_count'', PInt (int (length open_tickets))),
         (Str ''tickets_by_status'', PDict by_status),
         (Str ''tickets_by_priority'', PDict by_priority),
         (Str ''open_tickets'', PList open_tickets),
         (Str ''summary'',
            PStr (envelope_arrow @ cp '' There are '' @ cp (str_nat (length open_tickets))
                  @ cp '' unresolved tickets ('' @ status_summary @ cp '')''))]))))))"

fun count_status :: "pyval list \<Rightarrow> (pyval \<times> pyval) list \<Rightarrow> pyerr + (pyval \<times> pyval) list" where
  "count_status [] by_status = Inr by_status"
| "count_status (sale # sales) by_status =
     (case bindE (getitem sale ''status'') (count_key by_status) of
        Inl e \<Rightarrow> Inl e
      | Inr by_status' \<Rightarrow> count_status sales by_status')"

definition analyze_sales_performance :: "pyrt \<Rightarrow> datafiles \<Rightarrow> pyval \<Rightarrow> pyerr + pyval" where
  "analyze_sales_performance rt fs region =
     (let sales_data = load_data fs ''sales.json'' in
      bindE (if py_truthy region
             then bindE (py_iter sales_data) (\<lambda>sales.
                  bindE (filterE (field_eq ''region'' region) sales) (\<lambda>kept. Inr (PList kept)))
             else Inr sales_data) (\<lambda>filtered_sales.
      bindE (py_iter filtered_sales) (\<lambda>sales.
      bindE (count_status sales []) (\<lambda>by_status.
      bindE (py_sum amount_of sales (PInt 0)) (\<lambda>total_amount.
      bindE (py_sum amount_if_closed sales (PInt 0)) (\<lambda>closed_amount.
      bindE (if py_truthy filtered_sales
             then bindE (py_len filtered_sales) (py_truediv total_amount)
             else Inr (PInt 0)) (\<lambda>avg_deal_size.
      bindE (py_len filtered_sales) (\<lambda>total_deals.
      bindE (fmt_comma rt total_amount) (\<lambda>total_text.
      bindE (fmt_comma rt closed_amount) (\<lambda>closed_text.
      Inr (PDict
        [(Str ''region'', if py_truthy region then region else Str ''All Regions''),
         (Str ''total_deals'', PInt (int total_deals)),
         (Str ''total_amount'', total_amount),
         (Str ''closed_amount'', closed_amount),
         (Str ''deals_by_status'', PDict by_status),
         (Str ''average_deal_size'', avg_deal_size),
         (Str ''summary'',
            PStr (chart_up
                  @ (if py_truthy region then cp '' Sales in '' @ py_str rt region
                     else cp '' Global Sales'')
                  @ cp '': '' @ cp (str_nat total_deals) @ cp '' deals totaling $''
                  @ total_text @ cp '' ($'' @ closed_text @ cp '' closed)''))])))))))))))"

definition count_where :: "(pyval \<Rightarrow> pyerr + bool) \<Rightarrow> pyval \<Rightarrow> pyerr + pyval" where
  "count_where p data =
     bindE (py_iter data) (\<lambda>xs. bindE (filterE p xs) (\<lambda>ys. Inr (PInt (int (length ys)))))"

definition get_business_overview :: "pyrt \<Rightarrow> datafiles \<Rightarrow> pyerr + pyval" where
  "get_business_overview rt fs =
     (let sales_data = load_data fs ''sales.json'';
          hr_data = load_data fs ''hr.json'';
          support_data = load_data fs ''support.json'' in
      bindE (py_iter sales_data) (\<lambda>sales.
      bindE (py_sum amount_if_closed sales (PInt 0)) (\<lambda>total_revenue.
      bindE (py_len hr_data) (\<lambda>total_employees.
      bindE (count_where (field_ne ''status'' (Str ''Resolved'')) support_data) (\<lambda>open_tickets.
      bindE (count_where (field_eq ''performance'' (Str ''Excellent'')) hr_data) (\<lambda>top_performers.
      bindE (count_where (field_eq ''department'' (Str ''Engineering'')) hr_data) (\<lambda>engineering.
      bindE (count_where (field_eq ''department'' (Str ''Sales'')) hr_data) (\<lambda>sales_staff.
      bindE (count_where (field_eq ''department'' (Str ''Marketing'')) hr_data) (\<lambda>marketing.
      bindE (count_where (field_eq ''department'' (Str ''Support'')) hr_data) (\<lambda>support.
      bindE (fmt_comma rt total_revenue) (\<lambda>revenue_text.
      Inr (PDict
        [(Str ''business_health'',
            PDict [(Str ''revenue'', total_revenue),
                   (Str ''employees'', PInt (int total_employees)),
                   (Str ''open_tickets'', open_tickets),
                   (Str ''top_performers'', top_performers),
                   (Str ''customer_satisfaction'', Str ''High'')]),
         (Str ''departments'',
            PDict [(Str ''Engineering'', engineering),
                   (Str ''Sales'', sales_staff),
                   (Str ''Marketing'', marketing),
                   (Str ''Support'', support)]),
         (Str ''summary'',
            PStr (office @ cp '' Business Overview: $'' @ revenue_text @ cp '' revenue, ''
                  @ cp (str_nat total_employees) @ cp '' employees, ''
                  @ py_str rt open_tickets @ cp '' open tickets, ''
                  @ py_str rt top_performers @ cp '' top performers''))]))))))))))))"

section \<open>The dispatcher\<close>

text \<open>The body of the \<^verbatim>\<open>try\<close> block of \<^verbatim>\<open>handle_tool_call\<close>.\<close>

definition run_tool :: "pyrt \<Rightarrow> datafiles \<Rightarrow> pyval \<Rightarrow> pyval \<Rightarrow> pyerr + pyval" where
  "run_tool rt fs tool_name arguments =
     (if py_eq tool_name (Str ''get_revenue_summary'') then get_revenue_summary rt fs
      else if py_eq tool_name (Str ''get_top_performers'')
        then bindE (py_get arguments ''department'' PNone) (get_top_performers rt fs)
      else if py_eq tool_name (Str ''get_open_tickets'') then get_open_tickets rt fs
      else if py_eq tool_name (Str ''analyze_sales_performance'')
        then bindE (py_get arguments ''region'' PNone) (analyze_sales_performance rt fs)
      else if py_eq tool_name (Str ''get_business_overview'') then get_business_overview rt fs
      else Inr (PDict [(Str ''error'', PStr (cp ''Unknown tool: '' @ py_str rt tool_name))]))"

text \<open>\<^verbatim>\<open>except Exception as e\<close>: the exception becomes the result \<^verbatim>\<open>{"error": str(e)}\<close>.\<close>

definition handle_tool_call :: "pyrt \<Rightarrow> datafiles \<Rightarrow> pyval \<Rightarrow> pyval \<Rightarrow> pyerr + pyval" where
  "handle_tool_call rt fs tool_name arguments =
     (case run_tool rt fs tool_name arguments of
        Inr result \<Rightarrow> Inr result
      | Inl e \<Rightarrow> Inr (PDict [(Str ''error'', PStr (str_exception rt e))]))"

section \<open>The HTTP adapter\<close>

text \<open>
  \<^verbatim>\<open>POST /tools/{tool_name}\<close>: the framework passes the path segment as a \<^verbatim>\<open>str\<close> and the
  request body as a \<^verbatim>\<open>dict\<close>.
\<close>

definition call_tool :: "pyrt \<Rightarrow> datafiles \<Rightarrow> nat list \<Rightarrow> (pyval \<times> pyval) list \<Rightarrow> pyerr + pyval" where
  "call_tool rt fs tool_name arguments =
     bindE (handle_tool_call rt fs (PStr tool_name) (PDict arguments))
       (\<lambda>result. Inr (PDict [(Str ''result'', result)]))"

definition list_tools :: "pyval" where
  "list_tools = PDict [(Str ''tools'', PList get_available_tools)]"

section \<open>The session adapter\<close>











section \<open>Vocabulary of the properties\<close>


definition has_field :: "string \<Rightarrow> pyval \<Rightarrow> pyval \<Rightarrow> bool" where
  "has_field k v x = (case getitem x k of Inr w \<Rightarrow> py_eq w v | Inl e \<Rightarrow> False)"













section \<open>A runtime and data for closed examples\<close>

text \<open>
  The theorems below hold for every runtime \<open>rt\<close>. Closed examples need one: this one
  prints a fixed text for every float, container and exception.
\<close>

definition sample_rt :: pyrt where
  "sample_rt =
     \<lparr>str_float = (\<lambda>q. cp ''0.0''),
      str_container = (\<lambda>v. cp ''[]''),
      format_comma_float = (\<lambda>q. cp ''0.0''),
      format_percent1 = (\<lambda>q. cp ''0.0%''),
      str_exception = (\<lambda>e. cp ''error''),
      json_dumps_indent2 = (\<lambda>v. cp ''null'')\<rparr>"

text \<open>Data and messages for the closed examples.\<close>

definition sale :: "int \<Rightarrow> string \<Rightarrow> pyval" where
  "sale a st = PDict [(Str ''amount'', PInt a), (Str ''status'', Str st)]"



definition employee :: "string \<Rightarrow> string \<Rightarrow> int \<Rightarrow> string \<Rightarrow> pyval" where
  "employee name department salary performance =
     PDict [(Str ''name'', Str name), (Str ''department'', Str department),
            (Str ''salary'', PInt salary), (Str ''performance'', Str performance)]"

definition scenario_staff :: "pyval list" where
  "scenario_staff =
     [employee ''Ada'' ''Engineering'' 120000 ''Excellent'',
      employee ''Bob'' ''Sales'' 90000 ''Excellent'',
      employee ''Cy'' ''Engineering'' 100000 ''Good'']"

definition scenario_hr :: datafiles where
  "scenario_hr = [''hr.json'' \<mapsto> PList scenario_staff]"

definition ticket :: "string \<Rightarrow> string \<Rightarrow> pyval" where
  "ticket status priority = PDict [(Str ''status'', Str status), (Str ''priority'', Str priority)]"

definition scenario_support :: datafiles where
  "scenario_support =
     [''support.json'' \<mapsto> PList [ticket ''Open'' ''High'', ticket ''Resolved'' ''Low'']]"


section \<open>Basic facts\<close>

lemma cp_eq_iff [simp]: "cp a = cp b \<longleftrightarrow> a = b"
  unfolding cp_def by (simp add: inj_on_def)

lemma cp_Nil [simp]: "cp [] = []"
  by (simp add: cp_def)

lemma cp_append: "cp (a @ b) = cp a @ cp b"
  by (simp add: cp_def)

lemma cp_cp [simp]: "cp a @ cp b = cp (a @ b)" "cp a @ cp b @ r = cp (a @ b) @ r"
  by (simp_all add: cp_def)

lemma cp_eq_Nil [simp]: "cp a = [] \<longleftrightarrow> a = []"
  by (simp add: cp_def)

lemma py_eq_PStr [simp]: "py_eq x (PStr s) \<longleftrightarrow> x = PStr s"
  by (cases x) auto

lemma py_eq_PStr_left [simp]: "py_eq (PStr s) x \<longleftrightarrow> x = PStr s"
  by (cases x) auto

lemma bindE_Inr [simp]: "bindE (Inr v) f = f v"
  by (simp add: bindE_def)

lemma bindE_Inl [simp]: "bindE (Inl e) f = Inl e"
  by (simp add: bindE_def)

lemma bindE_eq_Inr: "bindE m f = Inr r \<longleftrightarrow> (\<exists>v. m = Inr v \<and> f v = Inr r)"
  by (cases m) auto

lemma tool_names_eq:
  "tool_names =
     [Str ''get_revenue_summary'', Str ''get_top_performers'', Str ''get_open_tickets'',
      Str ''analyze_sales_performance'', Str ''get_business_overview'']"
  by (simp add: tool_names_def get_available_tools_def tool_descriptor_def)

section \<open>The dispatcher on unknown tools\<close>

text \<open>
  C2. For a tool name that is not one of the five registered names, and any arguments,
  \<open>handle_tool_call\<close> returns normally (no exception leaves it) with the failure result
  \<^verbatim>\<open>{"error": "Unknown tool: <name>"}\<close>, whose message ends with the requested name (for a
  name that is a string, \<open>py_str\<close> is the name itself).
\<close>

theorem unknown_tool_is_failure:
  assumes "tool_name \<notin> set tool_names"
  shows "handle_tool_call rt fs tool_name arguments =
           Inr (PDict [(Str ''error'', PStr (cp ''Unknown tool: '' @ py_str rt tool_name))])"
  using assms by (simp add: tool_names_eq handle_tool_call_def run_tool_def)

theorem unknown_tool_is_failure_witness:
  "handle_tool_call sample_rt Map.empty (Str ''delete_everything'') (PDict []) =
     Inr (PDict [(Str ''error'', PStr (cp ''Unknown tool: '' @ cp ''delete_everything''))])"
  using unknown_tool_is_failure [of "Str ''delete_everything''" sample_rt Map.empty "PDict []"]
  by (simp add: tool_names_eq)

section \<open>Facts about list comprehensions, sums and formatting\<close>


lemma filterE_field_ne:
  "\<forall>x\<in>set xs. \<exists>v. getitem x k = Inr v \<Longrightarrow>
   filterE (field_ne k lit) xs = Inr (filter (\<lambda>x. \<not> has_field k lit x) xs)"
  by (induction xs) (auto simp: field_ne_def has_field_def)

lemma filterE_field_eq_Inr:
  "filterE (field_eq k lit) xs = Inr ys \<Longrightarrow> ys = filter (has_field k lit) xs"
proof (induction xs arbitrary: ys)
  case Nil
  then show ?case by simp
next
  case (Cons x xs)
  then show ?case
    by (auto simp: field_eq_def has_field_def bindE_eq_Inr split: sum.splits if_splits)
qed



lemma count_where_field_eq:
  "count_where (field_eq k lit) data = Inr c \<Longrightarrow> py_iter data = Inr xs \<Longrightarrow>
     c = PInt (int (length (filter (has_field k lit) xs)))"
  by (auto simp: count_where_def bindE_eq_Inr dest: filterE_field_eq_Inr)

lemma py_add_ints [simp]: "py_add (PInt a) (PInt b) = Inr (PInt (a + b))"
  by (simp add: py_add_def)

lemma str_nat_0 [simp]: "str_nat 0 = ''0''"
  by (simp add: str_nat.simps)

lemma comma_int_0 [simp]: "comma_int 0 = ''0''"
  by (simp add: comma_int_def group3.simps)

lemma str_int_0 [simp]: "str_int 0 = ''0''"
  by (simp add: str_int_def)

lemma py_join_strs [simp]: "py_join sep (map PStr ns) = Inr (join_strs sep ns)"
proof -
  have "mapE str_item (map PStr ns) = Inr ns"
    by (induction ns) (auto simp: str_item_def)
  then show ?thesis by (simp add: py_join_def)
qed


section \<open>The revenue summary\<close>





section \<open>The top performers\<close>







section \<open>The business overview\<close>

text \<open>
  C6. Whenever \<open>get_business_overview\<close> returns, its \<open>departments\<close> mapping has exactly
  the four keys Engineering, Sales, Marketing and Support, in this order, each with the
  number of personnel records of that department: 0 where there is none, the key never
  left out.
\<close>

theorem overview_departments:
  assumes "get_business_overview rt fs = Inr overview"
  shows "\<exists>staff. py_iter (load_data fs ''hr.json'') = Inr staff \<and>
     getitem overview ''departments'' =
       Inr (PDict
         [(Str ''Engineering'',
             PInt (int (length (filter (has_field ''department'' (Str ''Engineering'')) staff)))),
          (Str ''Sales'',
             PInt (int (length (filter (has_field ''department'' (Str ''Sales'')) staff)))),
          (Str ''Marketing'',
             PInt (int (length (filter (has_field ''department'' (Str ''Marketing'')) staff)))),
          (Str ''Support'',
             PInt (int (length (filter (has_field ''department'' (Str ''Support'')) staff))))])"
proof -
  let ?hr = "load_data fs ''hr.json''"
  from assms obtain e s m u where
    c: "count_where (field_eq ''department'' (Str ''Engineering'')) ?hr = Inr e"
       "count_where (field_eq ''department'' (Str ''Sales'')) ?hr = Inr s"
       "count_where (field_eq ''department'' (Str ''Marketing'')) ?hr = Inr m"
       "count_where (field_eq ''department'' (Str ''Support'')) ?hr = Inr u"
    and d: "getitem overview ''departments'' =
       Inr (PDict [(Str ''Engineering'', e), (Str ''Sales'', s), (Str ''Marketing'', m), (Str ''Support'', u)])"
    by (auto simp: get_business_overview_def Let_def bindE_eq_Inr)
  from c(1) obtain staff where staff: "py_iter ?hr = Inr staff"
    by (auto simp: count_where_def bindE_eq_Inr)
  show ?thesis
    using d staff c [THEN count_where_field_eq, OF staff] by simp
qed

theorem overview_departments_witness:
  "\<exists>overview. get_business_overview sample_rt scenario_hr = Inr overview \<and>
     getitem overview ''departments'' =
       Inr (PDict [(Str ''Engineering'', PInt 2), (Str ''Sales'', PInt 1),
                   (Str ''Marketing'', PInt 0), (Str ''Support'', PInt 0)])"
proof -
  obtain overview where o: "get_business_overview sample_rt scenario_hr = Inr overview"
    by (simp add: get_business_overview_def Let_def scenario_hr_def scenario_staff_def load_data_def
        employee_def count_where_def field_eq_def field_ne_def)
  show ?thesis
    using overview_departments [OF o] o
    by (simp add: scenario_hr_def scenario_staff_def load_data_def employee_def has_field_def)
qed

section \<open>The summary of a successful call\<close>

lemma revenue_summary_has_summary:
  "get_revenue_summary rt fs = Inr r \<Longrightarrow> \<exists>s. getitem r ''summary'' = Inr (PStr s) \<and> s \<noteq> []"
  by (auto simp: get_revenue_summary_def Let_def bindE_eq_Inr check_mark_def)

lemma top_performers_has_summary:
  "get_top_performers rt fs d = Inr r \<Longrightarrow> \<exists>s. getitem r ''summary'' = Inr (PStr s) \<and> s \<noteq> []"
  by (auto simp: get_top_performers_def Let_def bindE_eq_Inr trophy_def split: if_splits)

lemma open_tickets_has_summary:
  "get_open_tickets rt fs = Inr r \<Longrightarrow> \<exists>s. getitem r ''summary'' = Inr (PStr s) \<and> s \<noteq> []"
  by (auto simp: get_open_tickets_def Let_def bindE_eq_Inr envelope_arrow_def)

lemma analyze_has_summary:
  "analyze_sales_performance rt fs d = Inr r \<Longrightarrow> \<exists>s. getitem r ''summary'' = Inr (PStr s) \<and> s \<noteq> []"
  by (auto simp: analyze_sales_performance_def Let_def bindE_eq_Inr chart_up_def)

lemma overview_has_summary:
  "get_business_overview rt fs = Inr r \<Longrightarrow> \<exists>s. getitem r ''summary'' = Inr (PStr s) \<and> s \<noteq> []"
  by (auto simp: get_business_overview_def Let_def bindE_eq_Inr office_def)

text \<open>
  C7. For a registered tool name, any arguments and any data files: when the executor
  returns normally, \<open>handle_tool_call\<close> returns its result, and the result has a
  \<open>summary\<close> that is a string and not empty.
\<close>

theorem success_has_summary:
  assumes "tool_name \<in> set tool_names"
    and "run_tool rt fs tool_name arguments = Inr result"
  shows "handle_tool_call rt fs tool_name arguments = Inr result \<and>
         (\<exists>s. getitem result ''summary'' = Inr (PStr s) \<and> s \<noteq> [])"
  using assms
  by (auto simp: tool_names_eq handle_tool_call_def run_tool_def bindE_eq_Inr
      dest: revenue_summary_has_summary top_performers_has_summary open_tickets_has_summary
        analyze_has_summary overview_has_summary)

theorem success_has_summary_witness:
  "Str ''get_open_tickets'' \<in> set tool_names \<and>
   (\<exists>result s.
      run_tool sample_rt scenario_support (Str ''get_open_tickets'') (PDict []) = Inr result \<and>
      handle_tool_call sample_rt scenario_support (Str ''get_open_tickets'') (PDict []) = Inr result \<and>
      getitem result ''summary'' = Inr (PStr s) \<and> s \<noteq> [])"
proof -
  have n: "Str ''get_open_tickets'' \<in> set tool_names"
    by (simp add: tool_names_eq)
  obtain result where r: "run_tool sample_rt scenario_support (Str ''get_open_tickets'') (PDict []) = Inr result"
    by (simp add: run_tool_def get_open_tickets_def Let_def scenario_support_def load_data_def
        ticket_def field_ne_def count_key_def status_count_text_def py_add_def py_join_def str_item_def)
  show ?thesis
    using success_has_summary [OF n r] n r by blast
qed

section \<open>The HTTP response\<close>

text \<open>
  C8. \<open>call_tool\<close> always returns normally, with a body of the shape \<^verbatim>\<open>{"result": ...}\<close>:
  the executor's result when it returns, and otherwise (an exception in the executor, or
  an unknown tool) a dictionary with the single key \<open>error\<close>. No failure is signalled in
  another way.
\<close>

theorem http_result_shape:
  "\<exists>result. call_tool rt fs tool_name arguments = Inr (PDict [(Str ''result'', result)]) \<and>
     (case run_tool rt fs (PStr tool_name) (PDict arguments) of
        Inr r \<Rightarrow> result = r
      | Inl e \<Rightarrow> result = PDict [(Str ''error'', PStr (str_exception rt e))]) \<and>
     (PStr tool_name \<notin> set tool_names \<longrightarrow>
        result = PDict [(Str ''error'', PStr (cp ''Unknown tool: '' @ tool_name))])"
  by (auto simp: call_tool_def handle_tool_call_def tool_names_eq run_tool_def split: sum.splits)

theorem http_result_shape_witness:
  "call_tool sample_rt Map.empty (cp ''nope'') [] =
     Inr (PDict [(Str ''result'', PDict [(Str ''error'', PStr (cp ''Unknown tool: '' @ cp ''nope''))])])"
  using http_result_shape [of sample_rt Map.empty "cp ''nope''" "[]"]
  by (auto simp: tool_names_eq)

section \<open>Executors on missing, empty and malformed data\<close>




section \<open>The session adapter: one response for each call, in order\<close>




section \<open>The session adapter: what ends a session\<close>








end
